theory Spec2Isabelle
  imports Main "HOL-Library.Word"
begin

section \<open>JavaScript strings and values\<close>

text \<open>
  A JavaScript string is a sequence of 16-bit code units. String literals of the source
  are ASCII and are written \<open>js ''...''\<close>.
\<close>

type_synonym jsstring = "16 word list"

definition js :: "string \<Rightarrow> jsstring" where
  "js s = map (\<lambda>c. of_nat (of_char c)) s"

text \<open>
  The values a parsed query string, a parsed body or a metadata mapping can hold. Numbers
  are only carried around by this library, never computed with, so an integer payload
  stands for them.
\<close>

datatype jsvalue =
    JUndefined
  | JNull
  | JBoolean bool
  | JNumber int
  | JString jsstring
  | JArray "jsvalue list"
  | JObject "(jsstring \<times> jsvalue) list"

text \<open>\<open>a ?? b\<close> and a default in a destructuring pattern or a parameter list.\<close>

fun nullish :: "'a option \<Rightarrow> 'a \<Rightarrow> 'a" where
  "nullish (Some x) d = x"
| "nullish None d = d"

text \<open>
  The code units that \<open>String.prototype.trim\<close> removes: ECMAScript's WhiteSpace and
  LineTerminator productions.
\<close>

definition isWhiteSpace :: "16 word \<Rightarrow> bool" where
  "isWhiteSpace c =
     (let n = unat c in
        n = 0x9 \<or> n = 0xA \<or> n = 0xB \<or> n = 0xC \<or> n = 0xD \<or> n = 0x20 \<or> n = 0xA0
      \<or> n = 0x1680 \<or> (0x2000 \<le> n \<and> n \<le> 0x200A) \<or> n = 0x2028 \<or> n = 0x2029
      \<or> n = 0x202F \<or> n = 0x205F \<or> n = 0x3000 \<or> n = 0xFEFF)"

definition trim :: "jsstring \<Rightarrow> jsstring" where
  "trim s = rev (dropWhile isWhiteSpace (rev (dropWhile isWhiteSpace s)))"

definition startsWith :: "jsstring \<Rightarrow> jsstring \<Rightarrow> bool" where
  "startsWith s p = (take (length p) s = p)"

text \<open>\<open>s.slice(n)\<close> for an index \<open>n\<close> that is not negative.\<close>

definition slice :: "jsstring \<Rightarrow> nat \<Rightarrow> jsstring" where
  "slice s n = drop n s"

text \<open>
  \<open>toLowerCase\<close> on the letters A to Z. Header names are ASCII tokens; every other code
  unit is left as it is, and no theorem below depends on what happens to it.
\<close>

definition toLowerCase :: "jsstring \<Rightarrow> jsstring" where
  "toLowerCase s = map (\<lambda>c. if 0x41 \<le> unat c \<and> unat c \<le> 0x5A then c + 0x20 else c) s"

fun join :: "jsstring list \<Rightarrow> jsstring \<Rightarrow> jsstring" where
  "join [] sep = []"
| "join [x] sep = x"
| "join (x # y # ys) sep = x @ sep @ join (y # ys) sep"

section \<open>utils.ts\<close>

text \<open>
  \<open>Buffer.from(s)\<close> encodes the string as UTF-8. A surrogate pair is one code point of
  four bytes; a code unit in the surrogate range that is not part of a pair is encoded as
  U+FFFD, the replacement character (bytes EF BF BD).
\<close>

definition isHighSurrogate :: "16 word \<Rightarrow> bool" where
  "isHighSurrogate c = (0xD800 \<le> unat c \<and> unat c \<le> 0xDBFF)"

definition isLowSurrogate :: "16 word \<Rightarrow> bool" where
  "isLowSurrogate c = (0xDC00 \<le> unat c \<and> unat c \<le> 0xDFFF)"

definition utf8 :: "nat \<Rightarrow> 8 word list" where
  "utf8 n =
     (if n < 0x80 then [of_nat n]
      else if n < 0x800 then [of_nat (0xC0 + n div 64), of_nat (0x80 + n mod 64)]
      else if n < 0x10000 then
        [of_nat (0xE0 + n div 4096), of_nat (0x80 + (n div 64) mod 64), of_nat (0x80 + n mod 64)]
      else
        [of_nat (0xF0 + n div 262144), of_nat (0x80 + (n div 4096) mod 64),
         of_nat (0x80 + (n div 64) mod 64), of_nat (0x80 + n mod 64)])"

fun Buffer_from :: "jsstring \<Rightarrow> 8 word list" where
  "Buffer_from [] = []"
| "Buffer_from [c] =
     (if isHighSurrogate c \<or> isLowSurrogate c then utf8 0xFFFD else utf8 (unat c))"
| "Buffer_from (c # d # cs) =
     (if isHighSurrogate c \<and> isLowSurrogate d then
        utf8 (0x10000 + (unat c - 0xD800) * 1024 + (unat d - 0xDC00)) @ Buffer_from cs
      else if isHighSurrogate c \<or> isLowSurrogate c then utf8 0xFFFD @ Buffer_from (d # cs)
      else utf8 (unat c) @ Buffer_from (d # cs))"

text \<open>\<open>crypto.timingSafeEqual\<close> throws on buffers of different byte lengths.\<close>

datatype crypto_error = ERR_CRYPTO_TIMING_SAFE_EQUAL_LENGTH

definition timingSafeEqual :: "8 word list \<Rightarrow> 8 word list \<Rightarrow> crypto_error + bool" where
  "timingSafeEqual a b =
     (if length a \<noteq> length b then Inl ERR_CRYPTO_TIMING_SAFE_EQUAL_LENGTH else Inr (a = b))"

text \<open>
  The parameters are declared \<open>string\<close>, but the function tests \<open>typeof\<close> at run time, so
  the model takes any value.
\<close>

definition timingSafeCompare :: "jsvalue \<Rightarrow> jsvalue \<Rightarrow> crypto_error + bool" where
  "timingSafeCompare a b =
     (case a of
        JString sa \<Rightarrow>
          (case b of
             JString sb \<Rightarrow>
               (let bufA = Buffer_from sa; bufB = Buffer_from sb in
                  if length bufA \<noteq> length bufB then
                    (case timingSafeEqual bufA bufA of
                       Inl e \<Rightarrow> Inl e
                     | Inr _ \<Rightarrow> Inr False)
                  else timingSafeEqual bufA bufB)
           | _ \<Rightarrow> Inr False)
      | _ \<Rightarrow> Inr False)"

definition hasAllScopes :: "jsstring list \<Rightarrow> jsstring list \<Rightarrow> bool" where
  "hasAllScopes provided required = list_all (\<lambda>scope. scope \<in> set provided) required"

definition hasAnyScope :: "jsstring list \<Rightarrow> jsstring list \<Rightarrow> bool" where
  "hasAnyScope provided required = list_ex (\<lambda>scope. scope \<in> set provided) required"

section \<open>validators.ts\<close>

record ScopeValidationResult =
  valid :: bool
  missing :: "jsstring list option"

definition validateScopes ::
  "jsstring list \<Rightarrow> jsstring list option \<Rightarrow> jsstring list option \<Rightarrow> ScopeValidationResult"
where
  "validateScopes providedScopes requiredScopes anyScopes =
     (if (case requiredScopes of Some rs \<Rightarrow> length rs > 0 | None \<Rightarrow> False)
         \<and> \<not> hasAllScopes providedScopes (the requiredScopes)
      then \<lparr>valid = False,
            missing = Some (filter (\<lambda>s. s \<notin> set providedScopes) (the requiredScopes))\<rparr>
      else if (case anyScopes of Some as \<Rightarrow> length as > 0 | None \<Rightarrow> False)
         \<and> \<not> hasAnyScope providedScopes (the anyScopes)
      then \<lparr>valid = False, missing = anyScopes\<rparr>
      else \<lparr>valid = True, missing = None\<rparr>)"

section \<open>errors.ts\<close>

text \<open>
  The class hierarchy as one record: the fields of the base class, and the fields the
  subclasses add, absent in the other kinds.
\<close>

record ApiKeyError =
  error_name :: jsstring
  code :: jsstring
  message :: jsstring
  statusCode :: int
  requiredScopes :: "jsstring list option"
  providedScopes :: "jsstring list option"
  retryAfter :: "int option"

definition MissingApiKeyError :: ApiKeyError where
  "MissingApiKeyError =
     \<lparr>error_name = js ''MissingApiKeyError'', code = js ''MISSING_API_KEY'',
      message = js ''API key is required'', statusCode = 401,
      requiredScopes = None, providedScopes = None, retryAfter = None\<rparr>"

definition InvalidApiKeyError :: "jsstring option \<Rightarrow> ApiKeyError" where
  "InvalidApiKeyError msg =
     \<lparr>error_name = js ''InvalidApiKeyError'', code = js ''INVALID_API_KEY'',
      message = nullish msg (js ''Invalid API key''), statusCode = 401,
      requiredScopes = None, providedScopes = None, retryAfter = None\<rparr>"

definition InsufficientScopesError :: "jsstring list \<Rightarrow> jsstring list \<Rightarrow> ApiKeyError" where
  "InsufficientScopesError required provided =
     \<lparr>error_name = js ''InsufficientScopesError'', code = js ''INSUFFICIENT_SCOPES'',
      message = js ''Insufficient scopes. Required: '' @ join required (js '', ''),
      statusCode = 403,
      requiredScopes = Some required, providedScopes = Some provided, retryAfter = None\<rparr>"

definition RateLimitExceededError :: "int \<Rightarrow> ApiKeyError" where
  "RateLimitExceededError after =
     \<lparr>error_name = js ''RateLimitExceededError'', code = js ''RATE_LIMIT_EXCEEDED'',
      message = js ''Rate limit exceeded'', statusCode = 429,
      requiredScopes = None, providedScopes = None, retryAfter = Some after\<rparr>"

section \<open>types.ts\<close>

text \<open>
  Field names that several interfaces share (\<open>valid\<close>, \<open>scopes\<close>, \<open>allowAnonymous\<close>, ...)
  carry the interface as a prefix; an optional field is an \<open>option\<close>.
\<close>

datatype source_kind = header | query_param | body_field | cookie

record ApiKeySource =
  source_type :: source_kind
  source_name :: jsstring
  source_prefix :: "jsstring option"

record RateLimit =
  limit :: int
  remaining :: int
  reset :: int

record ApiKeyValidationResult =
  result_valid :: bool
  result_scopes :: "jsstring list option"
  result_rateLimit :: "RateLimit option"
  result_metadata :: "(jsstring \<rightharpoonup> jsvalue) option"
  result_errorMessage :: "jsstring option"

record ApiKeyGuardOptions =
  guard_scopes :: "jsstring list option"
  guard_anyScope :: "jsstring list option"
  guard_allowAnonymous :: "bool option"

record ApiKeyData =
  key :: jsstring
  scopes :: "jsstring list"
  rateLimit :: "RateLimit option"
  metadata :: "jsstring \<rightharpoonup> jsvalue"

text \<open>
  What the request holds for the extractor, with the types \<open>extractFromSource\<close> casts it
  to: a header is one string or several; \<open>query\<close> and \<open>body\<close> are a mapping of property
  names to values or absent (\<open>undefined\<close>, and for the body \<open>null\<close>); \<open>cookies\<close> is a mapping
  of names to strings or absent. The properties the guard writes onto the request are
  kept in \<open>decorations\<close>, where an absent name is \<open>undefined\<close>.
\<close>

datatype header_value = Single jsstring | Multiple "jsstring list"

datatype decoration = Context ApiKeyData | ScopeList "jsstring list"

record FastifyRequest =
  headers :: "jsstring \<rightharpoonup> header_value"
  query :: "(jsstring \<rightharpoonup> jsvalue) option"
  body :: "(jsstring \<rightharpoonup> jsvalue) option"
  cookies :: "(jsstring \<rightharpoonup> jsstring) option"
  decorations :: "jsstring \<rightharpoonup> decoration"

record FastifyReply =
  reply_status :: int
  reply_payload :: "jsvalue option"

text \<open>
  The callbacks of the caller return a value or throw one (\<open>Inl\<close>). They are taken not to
  write to the request or to the validation result they are given.
\<close>

type_synonym ApiKeyValidator =
  "jsstring \<Rightarrow> FastifyRequest \<Rightarrow> jsvalue + ApiKeyValidationResult"

type_synonym ApiKeyErrorHandler =
  "ApiKeyError \<Rightarrow> FastifyRequest \<Rightarrow> FastifyReply \<Rightarrow> jsvalue + FastifyReply"

type_synonym ApiKeyHook =
  "jsstring \<Rightarrow> ApiKeyValidationResult \<Rightarrow> FastifyRequest \<Rightarrow> jsvalue + unit"

record FastifyApiKeyOptions =
  sources :: "ApiKeySource list option"
  validate :: ApiKeyValidator
  errorHandler :: "ApiKeyErrorHandler option"
  decoratorName :: "jsstring option"
  allowAnonymous :: "bool option"
  onValidation :: "ApiKeyHook option"
  timingSafe :: "bool option"

section \<open>extractors.ts\<close>

text \<open>
  The \<open>switch\<close> of \<open>extractFromSource\<close>: the local variable \<open>value\<close> after it, \<open>None\<close> for
  \<open>undefined\<close>.
\<close>

definition sourceValue :: "FastifyRequest \<Rightarrow> ApiKeySource \<Rightarrow> jsstring option" where
  "sourceValue request source =
     (case source_type source of
        header \<Rightarrow>
          (case headers request (toLowerCase (source_name source)) of
             None \<Rightarrow> None
           | Some (Single v) \<Rightarrow> Some v
           | Some (Multiple vs) \<Rightarrow> (case vs of [] \<Rightarrow> None | v # _ \<Rightarrow> Some v))
      | query_param \<Rightarrow>
          (case query request of
             None \<Rightarrow> None
           | Some q \<Rightarrow> (case q (source_name source) of Some (JString v) \<Rightarrow> Some v | _ \<Rightarrow> None))
      | body_field \<Rightarrow>
          (case body request of
             None \<Rightarrow> None
           | Some b \<Rightarrow> (case b (source_name source) of Some (JString v) \<Rightarrow> Some v | _ \<Rightarrow> None))
      | cookie \<Rightarrow>
          (case cookies request of
             None \<Rightarrow> None
           | Some c \<Rightarrow> c (source_name source)))"

text \<open>The rest of \<open>extractFromSource\<close>; \<open>None\<close> is \<open>null\<close>.\<close>

definition extractFromSource :: "FastifyRequest \<Rightarrow> ApiKeySource \<Rightarrow> jsstring option" where
  "extractFromSource request source =
     (case sourceValue request source of
        None \<Rightarrow> None
      | Some v \<Rightarrow>
          if v = [] then None
          else if (case source_prefix source of Some p \<Rightarrow> p \<noteq> [] \<and> startsWith v p | None \<Rightarrow> False)
          then Some (trim (slice v (length (the (source_prefix source)))))
          else Some (trim v))"

text \<open>\<open>if (key)\<close>: neither \<open>null\<close> nor the empty string.\<close>

fun truthy :: "jsstring option \<Rightarrow> bool" where
  "truthy None = False"
| "truthy (Some s) = (s \<noteq> [])"

fun extractApiKey :: "FastifyRequest \<Rightarrow> ApiKeySource list \<Rightarrow> jsstring option" where
  "extractApiKey request [] = None"
| "extractApiKey request (source # rest) =
     (let k = extractFromSource request source in
        if truthy k then k else extractApiKey request rest)"

section \<open>plugin.ts\<close>

definition DEFAULT_SOURCES :: "ApiKeySource list" where
  "DEFAULT_SOURCES =
     [\<lparr>source_type = header, source_name = js ''X-API-Key'', source_prefix = None\<rparr>]"

text \<open>
  Fastify's \<open>decorateRequest\<close> and \<open>decorate\<close> refuse a name that is already decorated; the
  instance is the two lists of names taken so far.
\<close>

record FastifyInstance =
  requestDecorators :: "jsstring list"
  instanceDecorators :: "jsstring list"

datatype fastify_error = FST_ERR_DEC_ALREADY_PRESENT jsstring

definition decorateRequest :: "FastifyInstance \<Rightarrow> jsstring \<Rightarrow> fastify_error + FastifyInstance" where
  "decorateRequest fastify n =
     (if n \<in> set (requestDecorators fastify) then Inl (FST_ERR_DEC_ALREADY_PRESENT n)
      else Inr (fastify\<lparr>requestDecorators := n # requestDecorators fastify\<rparr>))"

definition decorate :: "FastifyInstance \<Rightarrow> jsstring \<Rightarrow> fastify_error + FastifyInstance" where
  "decorate fastify n =
     (if n \<in> set (instanceDecorators fastify) then Inl (FST_ERR_DEC_ALREADY_PRESENT n)
      else Inr (fastify\<lparr>instanceDecorators := n # instanceDecorators fastify\<rparr>))"

text \<open>
  The body of \<open>fastifyApiKeyPlugin\<close> outside the guard factory: the four decorations, in
  the order of the source. The two guard factories it installs are \<open>createGuard\<close> and
  \<open>requireApiKey\<close> below, closed over the same options.
\<close>

definition fastifyApiKeyPlugin ::
  "FastifyInstance \<Rightarrow> FastifyApiKeyOptions \<Rightarrow> fastify_error + FastifyInstance"
where
  "fastifyApiKeyPlugin fastify options =
     (case decorateRequest fastify (nullish (decoratorName options) (js ''apiKey'')) of
        Inl e \<Rightarrow> Inl e
      | Inr f1 \<Rightarrow>
          (case decorateRequest f1 (js ''apiKeyScopes'') of
             Inl e \<Rightarrow> Inl e
           | Inr f2 \<Rightarrow>
               (case decorate f2 (js ''apiKey'') of
                  Inl e \<Rightarrow> Inl e
                | Inr f3 \<Rightarrow> decorate f3 (js ''requireApiKey''))))"

text \<open>
  How one run of the guard ends: it returns and the request goes on; the error handler
  was given the error and returned; the error is thrown to the framework; or a callback
  (validator, hook or error handler) threw a value of its own, which the guard does not
  catch.
\<close>

datatype guard_outcome =
    Continued
  | Handled ApiKeyError
  | Thrown ApiKeyError
  | CallbackThrew jsvalue

record guard_result =
  outcome :: guard_outcome
  request_after :: FastifyRequest
  reply_after :: FastifyReply

text \<open>
  The block that follows each \<open>new ...Error\<close> in the guard:
  \<open>if (errorHandler) { await errorHandler(error, request, reply); return; } throw error;\<close>
\<close>

definition raise ::
  "ApiKeyErrorHandler option \<Rightarrow> ApiKeyError \<Rightarrow> FastifyRequest \<Rightarrow> FastifyReply \<Rightarrow> guard_result"
where
  "raise handler error request reply =
     (case handler of
        Some h \<Rightarrow>
          (case h error request reply of
             Inl thrown \<Rightarrow>
               \<lparr>outcome = CallbackThrew thrown, request_after = request, reply_after = reply\<rparr>
           | Inr reply' \<Rightarrow>
               \<lparr>outcome = Handled error, request_after = request, reply_after = reply'\<rparr>)
      | None \<Rightarrow> \<lparr>outcome = Thrown error, request_after = request, reply_after = reply\<rparr>)"

text \<open>Steps 3 and 4 of the guard, reached with a key and a result that is valid.\<close>

definition checkScopesAndPopulate ::
  "FastifyApiKeyOptions \<Rightarrow> ApiKeyGuardOptions \<Rightarrow> jsstring \<Rightarrow> ApiKeyValidationResult \<Rightarrow>
   FastifyRequest \<Rightarrow> FastifyReply \<Rightarrow> guard_result"
where
  "checkScopesAndPopulate options guardOptions k result request reply =
     (let providedScopes = nullish (result_scopes result) [];
          scopeResult =
            validateScopes providedScopes (guard_scopes guardOptions) (guard_anyScope guardOptions)
      in
        if \<not> valid scopeResult then
          raise (errorHandler options)
            (InsufficientScopesError
               (case guard_scopes guardOptions of
                  Some s \<Rightarrow> s
                | None \<Rightarrow> nullish (guard_anyScope guardOptions) [])
               providedScopes)
            request reply
        else
          (let apiKeyData =
                 \<lparr>key = (if nullish (timingSafe options) True then js ''[REDACTED]'' else k),
                  scopes = providedScopes,
                  rateLimit = result_rateLimit result,
                  metadata = nullish (result_metadata result) Map.empty\<rparr>
           in
             \<lparr>outcome = Continued,
              request_after =
                request\<lparr>decorations :=
                  ((decorations request)
                     (nullish (decoratorName options) (js ''apiKey'') \<mapsto> Context apiKeyData))
                     (js ''apiKeyScopes'' \<mapsto> ScopeList providedScopes)\<rparr>,
              reply_after = reply\<rparr>))"

text \<open>
  The function that \<open>createGuard(guardOptions)\<close> returns, applied to a request and a
  reply. \<open>options\<close> are the plugin's options, which the source destructures with their
  defaults.
\<close>

definition createGuard ::
  "FastifyApiKeyOptions \<Rightarrow> ApiKeyGuardOptions \<Rightarrow> FastifyRequest \<Rightarrow> FastifyReply \<Rightarrow> guard_result"
where
  "createGuard options guardOptions request reply =
     (let shouldAllowAnonymous =
            nullish (guard_allowAnonymous guardOptions) (nullish (allowAnonymous options) False);
          k = extractApiKey request (nullish (sources options) DEFAULT_SOURCES)
      in
        if \<not> truthy k then
          (if shouldAllowAnonymous then
             \<lparr>outcome = Continued, request_after = request, reply_after = reply\<rparr>
           else raise (errorHandler options) MissingApiKeyError request reply)
        else
          (case validate options (the k) request of
             Inl thrown \<Rightarrow>
               \<lparr>outcome = CallbackThrew thrown, request_after = request, reply_after = reply\<rparr>
           | Inr result \<Rightarrow>
               (case (case onValidation options of
                        Some hook \<Rightarrow> hook (the k) result request
                      | None \<Rightarrow> Inr ()) of
                  Inl thrown \<Rightarrow>
                    \<lparr>outcome = CallbackThrew thrown, request_after = request,
                     reply_after = reply\<rparr>
                | Inr _ \<Rightarrow>
                    if \<not> result_valid result then
                      (if shouldAllowAnonymous then
                         \<lparr>outcome = Continued, request_after = request, reply_after = reply\<rparr>
                       else
                         raise (errorHandler options)
                           (InvalidApiKeyError (result_errorMessage result)) request reply)
                    else checkScopesAndPopulate options guardOptions (the k) result request reply)))"

definition requireApiKey ::
  "FastifyApiKeyOptions \<Rightarrow> jsstring list option \<Rightarrow> FastifyRequest \<Rightarrow> FastifyReply \<Rightarrow> guard_result"
where
  "requireApiKey options scopes' =
     createGuard options
       \<lparr>guard_scopes = scopes', guard_anyScope = None, guard_allowAnonymous = None\<rparr>"

section \<open>Example data\<close>

text \<open>Concrete requests and configurations, for the examples of the theorems below.\<close>

definition example_request :: FastifyRequest where
  "example_request =
     \<lparr>headers = [js ''authorization'' \<mapsto> Single (js ''ApiKey my-secret''),
                 js ''x-api-key'' \<mapsto> Single (js ''   '')],
      query = Some [js ''api_key'' \<mapsto> JString (js ''from-query''), js ''n'' \<mapsto> JNumber 5],
      body = None, cookies = None, decorations = Map.empty\<rparr>"


definition keyed_request :: FastifyRequest where
  "keyed_request =
     \<lparr>headers = [js ''x-api-key'' \<mapsto> Single (js ''sk_test_valid123'')],
      query = Some Map.empty, body = None, cookies = None, decorations = Map.empty\<rparr>"

definition anonymous_request :: FastifyRequest where
  "anonymous_request =
     \<lparr>headers = Map.empty, query = Some Map.empty, body = None, cookies = None,
      decorations = Map.empty\<rparr>"

definition example_reply :: FastifyReply where
  "example_reply = \<lparr>reply_status = 200, reply_payload = None\<rparr>"

text \<open>
  The test suite's validator, \<open>validate: async () => ({ valid, scopes })\<close>, and the plugin
  options that hold nothing else.
\<close>

definition test_result :: "bool \<Rightarrow> jsstring list option \<Rightarrow> ApiKeyValidationResult" where
  "test_result ok granted =
     \<lparr>result_valid = ok, result_scopes = granted, result_rateLimit = None,
      result_metadata = None, result_errorMessage = None\<rparr>"

definition test_options :: "bool \<Rightarrow> jsstring list option \<Rightarrow> FastifyApiKeyOptions" where
  "test_options ok granted =
     \<lparr>sources = None, validate = (\<lambda>k request. Inr (test_result ok granted)),
      errorHandler = None, decoratorName = None, allowAnonymous = None,
      onValidation = None, timingSafe = None\<rparr>"

definition failing_hook :: ApiKeyHook where
  "failing_hook k result request = Inl (JString (js ''audit log unavailable''))"

definition example_fastify :: FastifyInstance where
  "example_fastify = \<lparr>requestDecorators = [], instanceDecorators = []\<rparr>"

section \<open>Properties of the scope validator\<close>

lemma hasAllScopes_iff: "hasAllScopes provided required \<longleftrightarrow> (\<forall>s\<in>set required. s \<in> set provided)"
  by (simp add: hasAllScopes_def list_all_iff)

lemma hasAnyScope_iff: "hasAnyScope provided required \<longleftrightarrow> (\<exists>s\<in>set required. s \<in> set provided)"
  by (simp add: hasAnyScope_def list_ex_iff)

text \<open>
  C3. \<open>validateScopes\<close> answers \<open>valid\<close> exactly when the list of required scopes is
  absent, empty or contained in the provided scopes, and the any-of list is absent, empty
  or shares a scope with the provided ones. When the required check fails, \<open>missing\<close> is
  the required scopes that are not provided, in the order of the required list. When the
  required check passes or is not configured and the any-of check fails, \<open>missing\<close> is
  the whole any-of list, in its order.
\<close>

theorem validateScopes_characterisation:
  "(valid (validateScopes provided required anyOf) \<longleftrightarrow>
      (case required of None \<Rightarrow> True
       | Some rs \<Rightarrow> rs = [] \<or> (\<forall>s\<in>set rs. s \<in> set provided)) \<and>
      (case anyOf of None \<Rightarrow> True
       | Some as \<Rightarrow> as = [] \<or> (\<exists>s\<in>set as. s \<in> set provided)))
   \<and> (\<forall>rs. required = Some rs \<and> \<not> (\<forall>s\<in>set rs. s \<in> set provided) \<longrightarrow>
         validateScopes provided required anyOf =
           \<lparr>valid = False, missing = Some (filter (\<lambda>s. s \<notin> set provided) rs)\<rparr>)
   \<and> (\<forall>as. (case required of None \<Rightarrow> True
             | Some rs \<Rightarrow> rs = [] \<or> (\<forall>s\<in>set rs. s \<in> set provided)) \<and>
            anyOf = Some as \<and> as \<noteq> [] \<and> \<not> (\<exists>s\<in>set as. s \<in> set provided) \<longrightarrow>
         validateScopes provided required anyOf = \<lparr>valid = False, missing = Some as\<rparr>)"
  by (auto simp: validateScopes_def hasAllScopes_iff hasAnyScope_iff split: option.splits)

theorem validateScopes_characterisation_witness:
  "validateScopes [js ''read''] (Some [js ''read'', js ''write'', js ''admin'']) None =
     \<lparr>valid = False, missing = Some [js ''write'', js ''admin'']\<rparr>
   \<and> validateScopes [js ''read'', js ''write''] (Some [js ''read'', js ''write''])
        (Some [js ''admin'', js ''super'']) =
     \<lparr>valid = False, missing = Some [js ''admin'', js ''super'']\<rparr>
   \<and> valid (validateScopes [js ''read'', js ''write'', js ''admin'']
        (Some [js ''read'', js ''write'']) None)"
  using validateScopes_characterisation
          [of "[js ''read'']" "Some [js ''read'', js ''write'', js ''admin'']" None]
        validateScopes_characterisation
          [of "[js ''read'', js ''write'']" "Some [js ''read'', js ''write'']"
              "Some [js ''admin'', js ''super'']"]
        validateScopes_characterisation
          [of "[js ''read'', js ''write'', js ''admin'']" "Some [js ''read'', js ''write'']" None]
  by (simp add: js_def)

text \<open>
  C8. Requirement lists are read as sets: two required lists with the same elements, and
  two any-of lists with the same elements (a list with repeated entries and its
  deduplicated version, for one), give the same \<open>valid\<close> flag and the same set of
  \<open>missing\<close> scopes.
\<close>

theorem validateScopes_duplicates:
  assumes "map_option set required = map_option set required'"
      and "map_option set anyOf = map_option set anyOf'"
  shows "valid (validateScopes provided required anyOf) =
           valid (validateScopes provided required' anyOf')
       \<and> map_option set (missing (validateScopes provided required anyOf)) =
           map_option set (missing (validateScopes provided required' anyOf'))"
proof -
  have req: "(case required of Some rs \<Rightarrow> length rs > 0 | None \<Rightarrow> False) =
             (case required' of Some rs \<Rightarrow> length rs > 0 | None \<Rightarrow> False)"
    using assms(1) by (cases required; cases required') auto
  have any: "(case anyOf of Some as \<Rightarrow> length as > 0 | None \<Rightarrow> False) =
             (case anyOf' of Some as \<Rightarrow> length as > 0 | None \<Rightarrow> False)"
    using assms(2) by (cases anyOf; cases anyOf') auto
  show ?thesis
    using assms req any
    by (cases required; cases required'; cases anyOf; cases anyOf')
       (auto simp: validateScopes_def hasAllScopes_iff hasAnyScope_iff)
qed

theorem validateScopes_duplicates_witness:
  "validateScopes [js ''read'']
       (Some [js ''admin'', js ''read'', js ''admin'']) (Some [js ''write'', js ''write'']) =
     \<lparr>valid = False, missing = Some [js ''admin'', js ''admin'']\<rparr>
   \<and> validateScopes [js ''read'']
       (Some [js ''admin'', js ''read'']) (Some [js ''write'']) =
     \<lparr>valid = False, missing = Some [js ''admin'']\<rparr>
   \<and> map_option set (missing (validateScopes [js ''read'']
       (Some [js ''admin'', js ''read'', js ''admin'']) (Some [js ''write'', js ''write'']))) =
     map_option set (missing (validateScopes [js ''read'']
       (Some [js ''admin'', js ''read'']) (Some [js ''write''])))"
  using validateScopes_duplicates
          [of "Some [js ''admin'', js ''read'', js ''admin'']" "Some [js ''admin'', js ''read'']"
              "Some [js ''write'', js ''write'']" "Some [js ''write'']" "[js ''read'']"]
  by (simp add: js_def validateScopes_def hasAllScopes_def hasAnyScope_def)

section \<open>Properties of the key extractor\<close>

lemma extractApiKey_skip:
  "\<forall>s\<in>set pre. \<not> truthy (extractFromSource request s) \<Longrightarrow>
   extractApiKey request (pre @ rest) = extractApiKey request rest"
  by (induction pre) simp_all

lemma extractApiKey_none:
  "\<forall>s\<in>set srcs. \<not> truthy (extractFromSource request s) \<Longrightarrow> extractApiKey request srcs = None"
  using extractApiKey_skip [of srcs request "[]"] by simp

text \<open>
  C4. The sources are tried in list order. When every source before some source yields
  nothing (\<open>null\<close> or an empty string after prefix stripping and trimming) and that
  source yields a non-empty string, this string is the key, whatever sources follow in
  the list: they are not looked at. When no source yields a non-empty string, and so for
  the empty list, the result is absent.
\<close>

theorem extractApiKey_first_source_wins:
  "(\<forall>pre source post k.
       (\<forall>s\<in>set pre. \<not> truthy (extractFromSource request s)) \<and>
       extractFromSource request source = Some k \<and> k \<noteq> [] \<longrightarrow>
       extractApiKey request (pre @ source # post) = Some k)
   \<and> (\<forall>srcs. (\<forall>s\<in>set srcs. \<not> truthy (extractFromSource request s)) \<longrightarrow>
         extractApiKey request srcs = None)
   \<and> extractApiKey request [] = None"
  by (simp add: extractApiKey_skip extractApiKey_none)

theorem extractApiKey_first_source_wins_witness:
  "extractApiKey example_request
     [\<lparr>source_type = header, source_name = js ''X-API-Key'', source_prefix = None\<rparr>,
      \<lparr>source_type = query_param, source_name = js ''n'', source_prefix = None\<rparr>,
      \<lparr>source_type = query_param, source_name = js ''api_key'', source_prefix = None\<rparr>,
      \<lparr>source_type = header, source_name = js ''Authorization'',
        source_prefix = Some (js ''ApiKey '')\<rparr>] = Some (js ''from-query'')
   \<and> extractApiKey example_request
     [\<lparr>source_type = header, source_name = js ''X-API-Key'', source_prefix = None\<rparr>,
      \<lparr>source_type = query_param, source_name = js ''n'', source_prefix = None\<rparr>] = None"
proof -
  let ?a = "\<lparr>source_type = header, source_name = js ''X-API-Key'', source_prefix = None\<rparr>"
  let ?b = "\<lparr>source_type = query_param, source_name = js ''n'', source_prefix = None\<rparr>"
  let ?c = "\<lparr>source_type = query_param, source_name = js ''api_key'', source_prefix = None\<rparr>"
  let ?d = "\<lparr>source_type = header, source_name = js ''Authorization'',
             source_prefix = Some (js ''ApiKey '')\<rparr>"
  have a: "extractFromSource example_request ?a = Some []"
    by (simp add: extractFromSource_def sourceValue_def example_request_def js_def
        toLowerCase_def trim_def isWhiteSpace_def)
  have b: "extractFromSource example_request ?b = None"
    by (simp add: extractFromSource_def sourceValue_def example_request_def js_def)
  have c: "extractFromSource example_request ?c = Some (js ''from-query'')"
    by (simp add: extractFromSource_def sourceValue_def example_request_def js_def
        trim_def isWhiteSpace_def)
  have nonempty: "js ''from-query'' \<noteq> []"
    by (simp add: js_def)
  have pre: "\<forall>s\<in>set [?a, ?b]. \<not> truthy (extractFromSource example_request s)"
    using a b by simp
  from extractApiKey_first_source_wins [of example_request] pre c nonempty
  have "extractApiKey example_request ([?a, ?b] @ ?c # [?d]) = Some (js ''from-query'')"
    by blast
  moreover from extractApiKey_first_source_wins [of example_request] pre
  have "extractApiKey example_request [?a, ?b] = None"
    by blast
  ultimately show ?thesis by simp
qed







section \<open>Properties of the guard\<close>

lemma extractApiKey_nonempty: "extractApiKey request srcs = Some k \<Longrightarrow> k \<noteq> []"
  by (induction srcs) (auto simp: Let_def split: if_splits)

lemma createGuard_no_key:
  "extractApiKey request (nullish (sources options) DEFAULT_SOURCES) = None \<Longrightarrow>
   createGuard options guardOptions request reply =
     (if nullish (guard_allowAnonymous guardOptions) (nullish (allowAnonymous options) False)
      then \<lparr>outcome = Continued, request_after = request, reply_after = reply\<rparr>
      else raise (errorHandler options) MissingApiKeyError request reply)"
  by (simp add: createGuard_def)

lemma createGuard_validated:
  assumes "extractApiKey request (nullish (sources options) DEFAULT_SOURCES) = Some k"
      and "validate options k request = Inr result"
      and "\<forall>hook. onValidation options = Some hook \<longrightarrow> hook k result request = Inr ()"
  shows "createGuard options guardOptions request reply =
     (if \<not> result_valid result then
        (if nullish (guard_allowAnonymous guardOptions) (nullish (allowAnonymous options) False)
         then \<lparr>outcome = Continued, request_after = request, reply_after = reply\<rparr>
         else raise (errorHandler options) (InvalidApiKeyError (result_errorMessage result))
                request reply)
      else checkScopesAndPopulate options guardOptions k result request reply)"
proof -
  have "truthy (Some k)"
    using assms(1) extractApiKey_nonempty by simp
  then show ?thesis
    using assms by (cases "onValidation options") (simp_all add: createGuard_def Let_def)
qed

lemma raise_request: "request_after (raise handler error request reply) = request"
  by (simp add: raise_def split: option.splits sum.splits)

lemma raise_thrown: "outcome (raise None error request reply) = Thrown error"
  by (simp add: raise_def)

lemma raise_handled:
  "h error request reply = Inr reply' \<Longrightarrow>
   raise (Some h) error request reply =
     \<lparr>outcome = Handled error, request_after = request, reply_after = reply'\<rparr>"
  by (simp add: raise_def)

lemma raise_outcome: "outcome (raise handler error request reply) \<noteq> Continued"
  by (simp add: raise_def split: option.splits sum.splits)

lemma keyed_request_key:
  "extractApiKey keyed_request DEFAULT_SOURCES = Some (js ''sk_test_valid123'')"
  by (simp add: keyed_request_def DEFAULT_SOURCES_def extractFromSource_def sourceValue_def
      js_def toLowerCase_def trim_def isWhiteSpace_def)

lemma anonymous_request_key: "extractApiKey anonymous_request DEFAULT_SOURCES = None"
  by (simp add: anonymous_request_def DEFAULT_SOURCES_def extractFromSource_def sourceValue_def)

text \<open>
  C5. When extraction yields no key, the route's \<open>allowAnonymous\<close> decides if it is
  present, in either direction, and the plugin's option (false by default) decides
  otherwise. Where anonymous access is allowed the guard returns and leaves the request
  as it was. Where it is not, the guard raises \<open>MissingApiKeyError\<close>, code
  \<open>MISSING_API_KEY\<close> and status 401: thrown without an error handler, handed to the error
  handler with one; the request is left as it was.
\<close>

theorem missing_key_policy:
  assumes "extractApiKey request (nullish (sources options) DEFAULT_SOURCES) = None"
  shows "(guard_allowAnonymous guardOptions = Some True \<or>
          guard_allowAnonymous guardOptions = None \<and> allowAnonymous options = Some True \<longrightarrow>
            createGuard options guardOptions request reply =
              \<lparr>outcome = Continued, request_after = request, reply_after = reply\<rparr>)
       \<and> (guard_allowAnonymous guardOptions = Some False \<or>
          guard_allowAnonymous guardOptions = None \<and> allowAnonymous options \<noteq> Some True \<longrightarrow>
            createGuard options guardOptions request reply =
              raise (errorHandler options) MissingApiKeyError request reply \<and>
            request_after (createGuard options guardOptions request reply) = request \<and>
            (errorHandler options = None \<longrightarrow>
               outcome (createGuard options guardOptions request reply) =
                 Thrown MissingApiKeyError) \<and>
            (\<forall>h reply'. errorHandler options = Some h \<and>
               h MissingApiKeyError request reply = Inr reply' \<longrightarrow>
               createGuard options guardOptions request reply =
                 \<lparr>outcome = Handled MissingApiKeyError, request_after = request,
                  reply_after = reply'\<rparr>))
       \<and> code MissingApiKeyError = js ''MISSING_API_KEY''
       \<and> statusCode MissingApiKeyError = 401"
proof -
  have eff: "nullish (guard_allowAnonymous guardOptions) (nullish (allowAnonymous options) False)
           \<longleftrightarrow> (guard_allowAnonymous guardOptions = Some True \<or>
                guard_allowAnonymous guardOptions = None \<and> allowAnonymous options = Some True)"
    by (cases "guard_allowAnonymous guardOptions"; cases "allowAnonymous options") auto
  show ?thesis
    unfolding createGuard_no_key [OF assms] eff
    by (auto simp: raise_request raise_thrown raise_handled MissingApiKeyError_def)
qed

theorem missing_key_policy_witness:
  "createGuard (test_options True None)
     \<lparr>guard_scopes = None, guard_anyScope = None, guard_allowAnonymous = None\<rparr>
     anonymous_request example_reply =
     \<lparr>outcome = Thrown MissingApiKeyError, request_after = anonymous_request,
      reply_after = example_reply\<rparr>
   \<and> createGuard ((test_options True None)\<lparr>allowAnonymous := Some True\<rparr>)
     \<lparr>guard_scopes = None, guard_anyScope = None, guard_allowAnonymous = Some False\<rparr>
     anonymous_request example_reply =
     \<lparr>outcome = Thrown MissingApiKeyError, request_after = anonymous_request,
      reply_after = example_reply\<rparr>
   \<and> createGuard (test_options True None)
     \<lparr>guard_scopes = None, guard_anyScope = None, guard_allowAnonymous = Some True\<rparr>
     anonymous_request example_reply =
     \<lparr>outcome = Continued, request_after = anonymous_request, reply_after = example_reply\<rparr>"
proof -
  have k: "extractApiKey anonymous_request
             (nullish (sources (test_options True None)) DEFAULT_SOURCES) = None"
    by (simp add: test_options_def anonymous_request_key)
  have k': "extractApiKey anonymous_request
             (nullish (sources ((test_options True None)\<lparr>allowAnonymous := Some True\<rparr>))
                DEFAULT_SOURCES) = None"
    by (simp add: test_options_def anonymous_request_key)
  show ?thesis
    using missing_key_policy [OF k, of "\<lparr>guard_scopes = None, guard_anyScope = None,
            guard_allowAnonymous = None\<rparr>" example_reply]
          missing_key_policy [OF k', of "\<lparr>guard_scopes = None, guard_anyScope = None,
            guard_allowAnonymous = Some False\<rparr>" example_reply]
          missing_key_policy [OF k, of "\<lparr>guard_scopes = None, guard_anyScope = None,
            guard_allowAnonymous = Some True\<rparr>" example_reply]
    by (simp add: test_options_def raise_def)
qed

text \<open>
  C6, as stated, fails when an \<open>onValidation\<close> hook throws: the hook runs before the guard
  looks at \<open>valid\<close>, and what it throws leaves the guard. Here the key is extracted, the
  validator returns \<open>valid: false\<close>, anonymous access is not allowed, and the guard ends
  with the hook's exception, not with \<open>InvalidApiKeyError\<close>.
\<close>

theorem invalid_key_with_failing_hook:
  "extractApiKey keyed_request
     (nullish (sources ((test_options False None)\<lparr>onValidation := Some failing_hook\<rparr>))
        DEFAULT_SOURCES) = Some (js ''sk_test_valid123'')
   \<and> validate ((test_options False None)\<lparr>onValidation := Some failing_hook\<rparr>)
        (js ''sk_test_valid123'') keyed_request = Inr (test_result False None)
   \<and> \<not> result_valid (test_result False None)
   \<and> \<not> nullish (guard_allowAnonymous
          \<lparr>guard_scopes = None, guard_anyScope = None, guard_allowAnonymous = None\<rparr>)
        (nullish (allowAnonymous ((test_options False None)\<lparr>onValidation := Some failing_hook\<rparr>))
           False)
   \<and> createGuard ((test_options False None)\<lparr>onValidation := Some failing_hook\<rparr>)
        \<lparr>guard_scopes = None, guard_anyScope = None, guard_allowAnonymous = None\<rparr>
        keyed_request example_reply =
      \<lparr>outcome = CallbackThrew (JString (js ''audit log unavailable'')),
       request_after = keyed_request, reply_after = example_reply\<rparr>
   \<and> createGuard ((test_options False None)\<lparr>onValidation := Some failing_hook\<rparr>)
        \<lparr>guard_scopes = None, guard_anyScope = None, guard_allowAnonymous = None\<rparr>
        keyed_request example_reply \<noteq>
      raise (errorHandler ((test_options False None)\<lparr>onValidation := Some failing_hook\<rparr>))
        (InvalidApiKeyError (result_errorMessage (test_result False None)))
        keyed_request example_reply"
  by (simp add: createGuard_def Let_def test_options_def test_result_def failing_hook_def
      keyed_request_key raise_def InvalidApiKeyError_def js_def)

text \<open>
  C6, amended. When a key is extracted, the validator returns \<open>valid: false\<close> and the
  \<open>onValidation\<close> hook, if there is one, returns without throwing: where anonymous access
  is allowed the guard returns and leaves the request as it was; where it is not, the
  guard raises \<open>InvalidApiKeyError\<close> (thrown, or handed to the error handler), code
  \<open>INVALID_API_KEY\<close> and status 401, whose message is the validator's \<open>errorMessage\<close> if
  there is one and \<open>Invalid API key\<close> otherwise.
\<close>

theorem invalid_key_policy:
  assumes "extractApiKey request (nullish (sources options) DEFAULT_SOURCES) = Some k"
      and "validate options k request = Inr result"
      and "\<not> result_valid result"
      and "\<forall>hook. onValidation options = Some hook \<longrightarrow> hook k result request = Inr ()"
  shows "(nullish (guard_allowAnonymous guardOptions) (nullish (allowAnonymous options) False) \<longrightarrow>
            createGuard options guardOptions request reply =
              \<lparr>outcome = Continued, request_after = request, reply_after = reply\<rparr>)
       \<and> (\<not> nullish (guard_allowAnonymous guardOptions) (nullish (allowAnonymous options) False) \<longrightarrow>
            createGuard options guardOptions request reply =
              raise (errorHandler options) (InvalidApiKeyError (result_errorMessage result))
                request reply \<and>
            request_after (createGuard options guardOptions request reply) = request \<and>
            (errorHandler options = None \<longrightarrow>
               outcome (createGuard options guardOptions request reply) =
                 Thrown (InvalidApiKeyError (result_errorMessage result))) \<and>
            (\<forall>h reply'. errorHandler options = Some h \<and>
               h (InvalidApiKeyError (result_errorMessage result)) request reply = Inr reply' \<longrightarrow>
               createGuard options guardOptions request reply =
                 \<lparr>outcome = Handled (InvalidApiKeyError (result_errorMessage result)),
                  request_after = request, reply_after = reply'\<rparr>))
       \<and> code (InvalidApiKeyError (result_errorMessage result)) = js ''INVALID_API_KEY''
       \<and> statusCode (InvalidApiKeyError (result_errorMessage result)) = 401
       \<and> message (InvalidApiKeyError (result_errorMessage result)) =
           (case result_errorMessage result of
              Some text \<Rightarrow> text
            | None \<Rightarrow> js ''Invalid API key'')"
  unfolding createGuard_validated [OF assms(1,2,4)]
  using assms(3)
  by (auto simp: raise_request raise_thrown raise_handled InvalidApiKeyError_def
      split: option.splits)

theorem invalid_key_policy_witness:
  "createGuard (test_options False None)
     \<lparr>guard_scopes = None, guard_anyScope = None, guard_allowAnonymous = None\<rparr>
     keyed_request example_reply =
     \<lparr>outcome = Thrown (InvalidApiKeyError None), request_after = keyed_request,
      reply_after = example_reply\<rparr>
   \<and> message (InvalidApiKeyError None) = js ''Invalid API key''
   \<and> createGuard (test_options False None)
     \<lparr>guard_scopes = None, guard_anyScope = None, guard_allowAnonymous = Some True\<rparr>
     keyed_request example_reply =
     \<lparr>outcome = Continued, request_after = keyed_request, reply_after = example_reply\<rparr>"
proof -
  have k: "extractApiKey keyed_request
             (nullish (sources (test_options False None)) DEFAULT_SOURCES) =
           Some (js ''sk_test_valid123'')"
    by (simp add: test_options_def keyed_request_key)
  have v: "validate (test_options False None) (js ''sk_test_valid123'') keyed_request =
           Inr (test_result False None)"
    by (simp add: test_options_def)
  have nv: "\<not> result_valid (test_result False None)"
    by (simp add: test_result_def)
  have h: "\<forall>hook. onValidation (test_options False None) = Some hook \<longrightarrow>
             hook (js ''sk_test_valid123'') (test_result False None) keyed_request = Inr ()"
    by (simp add: test_options_def)
  show ?thesis
    using invalid_key_policy [OF k v nv h, of "\<lparr>guard_scopes = None, guard_anyScope = None,
            guard_allowAnonymous = None\<rparr>" example_reply]
          invalid_key_policy [OF k v nv h, of "\<lparr>guard_scopes = None, guard_anyScope = None,
            guard_allowAnonymous = Some True\<rparr>" example_reply]
    by (simp add: test_options_def test_result_def raise_def)
qed

lemma checkScopesAndPopulate_fails:
  "\<not> valid (validateScopes (nullish (result_scopes result) []) (guard_scopes guardOptions)
       (guard_anyScope guardOptions)) \<Longrightarrow>
   checkScopesAndPopulate options guardOptions k result request reply =
     raise (errorHandler options)
       (InsufficientScopesError
          (case guard_scopes guardOptions of
             Some s \<Rightarrow> s
           | None \<Rightarrow> nullish (guard_anyScope guardOptions) [])
          (nullish (result_scopes result) []))
       request reply"
  by (simp add: checkScopesAndPopulate_def Let_def)

lemma checkScopesAndPopulate_passes:
  "valid (validateScopes (nullish (result_scopes result) []) (guard_scopes guardOptions)
       (guard_anyScope guardOptions)) \<Longrightarrow>
   checkScopesAndPopulate options guardOptions k result request reply =
     \<lparr>outcome = Continued,
      request_after =
        request\<lparr>decorations :=
          ((decorations request)
             (nullish (decoratorName options) (js ''apiKey'') \<mapsto>
                Context
                  \<lparr>key = (if nullish (timingSafe options) True then js ''[REDACTED]'' else k),
                   scopes = nullish (result_scopes result) [],
                   rateLimit = result_rateLimit result,
                   metadata = nullish (result_metadata result) Map.empty\<rparr>))
             (js ''apiKeyScopes'' \<mapsto> ScopeList (nullish (result_scopes result) []))\<rparr>,
      reply_after = reply\<rparr>"
  by (simp add: checkScopesAndPopulate_def Let_def)

lemma checkScopesAndPopulate_policy:
  "checkScopesAndPopulate (options\<lparr>allowAnonymous := a\<rparr>)
     (guardOptions\<lparr>guard_allowAnonymous := b\<rparr>) k result request reply =
   checkScopesAndPopulate options guardOptions k result request reply"
  by (simp add: checkScopesAndPopulate_def Let_def cong: option.case_cong)

text \<open>
  C10. When a key is extracted, the validator returns \<open>valid: true\<close> and the guard comes to
  its scope check (an \<open>onValidation\<close> hook, if there is one, has returned), anonymous
  access plays no part: changing the plugin's or the route's \<open>allowAnonymous\<close> changes
  nothing in what the guard does. If the scope check fails the guard raises
  \<open>InsufficientScopesError\<close>, code \<open>INSUFFICIENT_SCOPES\<close> and status 403, thrown or handed to
  the error handler; it does not return normally and attaches nothing.
\<close>

theorem scope_failure_despite_anonymous:
  assumes "extractApiKey request (nullish (sources options) DEFAULT_SOURCES) = Some k"
      and "validate options k request = Inr result"
      and "result_valid result"
      and "\<forall>hook. onValidation options = Some hook \<longrightarrow> hook k result request = Inr ()"
  shows "(\<not> valid (validateScopes (nullish (result_scopes result) [])
               (guard_scopes guardOptions) (guard_anyScope guardOptions)) \<longrightarrow>
          (\<exists>required.
             createGuard options guardOptions request reply =
               raise (errorHandler options)
                 (InsufficientScopesError required (nullish (result_scopes result) []))
                 request reply \<and>
             code (InsufficientScopesError required (nullish (result_scopes result) [])) =
               js ''INSUFFICIENT_SCOPES'' \<and>
             statusCode (InsufficientScopesError required (nullish (result_scopes result) [])) =
               403 \<and>
             (errorHandler options = None \<longrightarrow>
                outcome (createGuard options guardOptions request reply) =
                  Thrown (InsufficientScopesError required (nullish (result_scopes result) []))) \<and>
             (\<forall>h reply'. errorHandler options = Some h \<and>
                h (InsufficientScopesError required (nullish (result_scopes result) []))
                  request reply = Inr reply' \<longrightarrow>
                createGuard options guardOptions request reply =
                  \<lparr>outcome =
                     Handled (InsufficientScopesError required (nullish (result_scopes result) [])),
                   request_after = request, reply_after = reply'\<rparr>)) \<and>
          outcome (createGuard options guardOptions request reply) \<noteq> Continued \<and>
          request_after (createGuard options guardOptions request reply) = request)
       \<and> (\<forall>a b. createGuard (options\<lparr>allowAnonymous := a\<rparr>)
                  (guardOptions\<lparr>guard_allowAnonymous := b\<rparr>) request reply =
                createGuard options guardOptions request reply)"
proof (intro conjI impI allI)
  have g: "createGuard options guardOptions request reply =
           checkScopesAndPopulate options guardOptions k result request reply"
    using createGuard_validated [OF assms(1,2,4)] assms(3) by simp
  {
    assume bad: "\<not> valid (validateScopes (nullish (result_scopes result) [])
               (guard_scopes guardOptions) (guard_anyScope guardOptions))"
    let ?required = "case guard_scopes guardOptions of
                       Some s \<Rightarrow> s
                     | None \<Rightarrow> nullish (guard_anyScope guardOptions) []"
    have r: "createGuard options guardOptions request reply =
             raise (errorHandler options)
               (InsufficientScopesError ?required (nullish (result_scopes result) []))
               request reply"
      using g checkScopesAndPopulate_fails [OF bad] by simp
    show "\<exists>required.
             createGuard options guardOptions request reply =
               raise (errorHandler options)
                 (InsufficientScopesError required (nullish (result_scopes result) []))
                 request reply \<and>
             code (InsufficientScopesError required (nullish (result_scopes result) [])) =
               js ''INSUFFICIENT_SCOPES'' \<and>
             statusCode (InsufficientScopesError required (nullish (result_scopes result) [])) =
               403 \<and>
             (errorHandler options = None \<longrightarrow>
                outcome (createGuard options guardOptions request reply) =
                  Thrown (InsufficientScopesError required (nullish (result_scopes result) []))) \<and>
             (\<forall>h reply'. errorHandler options = Some h \<and>
                h (InsufficientScopesError required (nullish (result_scopes result) []))
                  request reply = Inr reply' \<longrightarrow>
                createGuard options guardOptions request reply =
                  \<lparr>outcome =
                     Handled (InsufficientScopesError required (nullish (result_scopes result) [])),
                   request_after = request, reply_after = reply'\<rparr>)"
      unfolding r
      by (rule exI [of _ ?required])
         (auto simp: raise_thrown raise_handled InsufficientScopesError_def)
    show "outcome (createGuard options guardOptions request reply) \<noteq> Continued"
      unfolding r by (rule raise_outcome)
    show "request_after (createGuard options guardOptions request reply) = request"
      unfolding r by (rule raise_request)
  }
  fix a b
  have "createGuard (options\<lparr>allowAnonymous := a\<rparr>)
          (guardOptions\<lparr>guard_allowAnonymous := b\<rparr>) request reply =
        checkScopesAndPopulate (options\<lparr>allowAnonymous := a\<rparr>)
          (guardOptions\<lparr>guard_allowAnonymous := b\<rparr>) k result request reply"
    using createGuard_validated [of request "options\<lparr>allowAnonymous := a\<rparr>" k result
            "guardOptions\<lparr>guard_allowAnonymous := b\<rparr>" reply] assms
    by simp
  then show "createGuard (options\<lparr>allowAnonymous := a\<rparr>)
          (guardOptions\<lparr>guard_allowAnonymous := b\<rparr>) request reply =
        createGuard options guardOptions request reply"
    using g by (simp add: checkScopesAndPopulate_policy)
qed

theorem scope_failure_despite_anonymous_witness:
  "createGuard ((test_options True (Some [js ''read'']))\<lparr>allowAnonymous := Some True\<rparr>)
     \<lparr>guard_scopes = Some [js ''admin'', js ''write''], guard_anyScope = None,
      guard_allowAnonymous = Some True\<rparr>
     keyed_request example_reply =
   \<lparr>outcome = Thrown (InsufficientScopesError [js ''admin'', js ''write''] [js ''read'']),
    request_after = keyed_request, reply_after = example_reply\<rparr>"
proof -
  let ?options = "(test_options True (Some [js ''read'']))\<lparr>allowAnonymous := Some True\<rparr>"
  let ?guard = "\<lparr>guard_scopes = Some [js ''admin'', js ''write''], guard_anyScope = None,
                 guard_allowAnonymous = Some True\<rparr>"
  let ?result = "test_result True (Some [js ''read''])"
  have k: "extractApiKey keyed_request (nullish (sources ?options) DEFAULT_SOURCES) =
           Some (js ''sk_test_valid123'')"
    by (simp add: test_options_def keyed_request_key)
  have v: "validate ?options (js ''sk_test_valid123'') keyed_request = Inr ?result"
    by (simp add: test_options_def)
  have ok: "result_valid ?result"
    by (simp add: test_result_def)
  have h: "\<forall>hook. onValidation ?options = Some hook \<longrightarrow>
             hook (js ''sk_test_valid123'') ?result keyed_request = Inr ()"
    by (simp add: test_options_def)
  have bad: "\<not> valid (validateScopes (nullish (result_scopes ?result) [])
               (guard_scopes ?guard) (guard_anyScope ?guard))"
    by (simp add: test_result_def validateScopes_def hasAllScopes_def js_def)
  from scope_failure_despite_anonymous [OF k v ok h, of ?guard example_reply] bad
  obtain required where
    r: "createGuard ?options ?guard keyed_request example_reply =
          raise (errorHandler ?options)
            (InsufficientScopesError required (nullish (result_scopes ?result) []))
            keyed_request example_reply"
    by blast
  have "createGuard ?options ?guard keyed_request example_reply =
          raise None (InsufficientScopesError [js ''admin'', js ''write''] [js ''read''])
            keyed_request example_reply"
    using k v ok bad
    by (simp add: createGuard_def Let_def checkScopesAndPopulate_def test_options_def
        test_result_def js_def)
  then show ?thesis
    using r by (simp add: raise_def)
qed

text \<open>
  C1 does not hold of the guard. The error is built from
  \<open>guardOptions.scopes ?? guardOptions.anyScope ?? []\<close>, which is the required list
  whenever one is configured, also when that check passed and the any-of check is the one
  that failed. With the key granted \<open>read\<close> and \<open>write\<close> on a route that requires both and
  any of \<open>admin\<close> and \<open>superuser\<close>, \<open>validateScopes\<close> reports the any-of list as missing,
  and the error's \<open>requiredScopes\<close> is the required list, which the key satisfies.
\<close>

theorem insufficient_scopes_names_passing_set:
  "createGuard (test_options True (Some [js ''read'', js ''write'']))
     \<lparr>guard_scopes = Some [js ''read'', js ''write''],
      guard_anyScope = Some [js ''admin'', js ''superuser''], guard_allowAnonymous = None\<rparr>
     keyed_request example_reply =
     \<lparr>outcome =
        Thrown (InsufficientScopesError [js ''read'', js ''write''] [js ''read'', js ''write'']),
      request_after = keyed_request, reply_after = example_reply\<rparr>
   \<and> validateScopes [js ''read'', js ''write''] (Some [js ''read'', js ''write''])
       (Some [js ''admin'', js ''superuser'']) =
     \<lparr>valid = False, missing = Some [js ''admin'', js ''superuser'']\<rparr>
   \<and> hasAllScopes [js ''read'', js ''write''] [js ''read'', js ''write'']
   \<and> requiredScopes
       (InsufficientScopesError [js ''read'', js ''write''] [js ''read'', js ''write'']) =
     Some [js ''read'', js ''write'']
   \<and> requiredScopes
       (InsufficientScopesError [js ''read'', js ''write''] [js ''read'', js ''write'']) \<noteq>
     Some [js ''admin'', js ''superuser'']"
  by (simp add: createGuard_def Let_def checkScopesAndPopulate_def test_options_def
      test_result_def keyed_request_key validateScopes_def hasAllScopes_def hasAnyScope_def
      raise_def InsufficientScopesError_def js_def)

text \<open>
  What the error does carry: the scopes the validator supplied, the required list when
  the required check is the one that failed, and the any-of list when no required list
  is configured.
\<close>

lemma insufficient_scopes_fields:
  assumes "extractApiKey request (nullish (sources options) DEFAULT_SOURCES) = Some k"
      and "validate options k request = Inr result"
      and "result_valid result"
      and "\<forall>hook. onValidation options = Some hook \<longrightarrow> hook k result request = Inr ()"
      and "\<not> valid (validateScopes (nullish (result_scopes result) [])
                (guard_scopes guardOptions) (guard_anyScope guardOptions))"
      and "errorHandler options = None"
  shows "\<exists>e. outcome (createGuard options guardOptions request reply) = Thrown e \<and>
             providedScopes e = Some (nullish (result_scopes result) []) \<and>
             ((\<exists>rs. guard_scopes guardOptions = Some rs \<and> rs \<noteq> [] \<and>
                   \<not> hasAllScopes (nullish (result_scopes result) []) rs) \<longrightarrow>
                requiredScopes e = guard_scopes guardOptions) \<and>
             (guard_scopes guardOptions = None \<longrightarrow>
                requiredScopes e = guard_anyScope guardOptions)"
proof -
  have "guard_scopes guardOptions = None \<Longrightarrow> guard_anyScope guardOptions \<noteq> None"
    using assms(5) by (cases "guard_anyScope guardOptions") (auto simp: validateScopes_def)
  then show ?thesis
    using createGuard_validated [OF assms(1,2,4)] assms(3,6)
          checkScopesAndPopulate_fails [OF assms(5)]
    by (auto simp: raise_def InsufficientScopesError_def)
qed

lemma registration_names:
  "fastifyApiKeyPlugin fastify options = Inr fastify' \<Longrightarrow>
   nullish (decoratorName options) (js ''apiKey'') \<noteq> js ''apiKeyScopes''"
  by (auto simp: fastifyApiKeyPlugin_def decorateRequest_def split: sum.splits if_splits)

lemma createGuard_validator_throws:
  "extractApiKey request (nullish (sources options) DEFAULT_SOURCES) = Some k \<Longrightarrow>
   validate options k request = Inl thrown \<Longrightarrow>
   createGuard options guardOptions request reply =
     \<lparr>outcome = CallbackThrew thrown, request_after = request, reply_after = reply\<rparr>"
  using extractApiKey_nonempty [of request "nullish (sources options) DEFAULT_SOURCES" k]
  by (simp add: createGuard_def Let_def)

lemma createGuard_hook_throws:
  "extractApiKey request (nullish (sources options) DEFAULT_SOURCES) = Some k \<Longrightarrow>
   validate options k request = Inr result \<Longrightarrow>
   onValidation options = Some hook \<Longrightarrow>
   hook k result request = Inl thrown \<Longrightarrow>
   createGuard options guardOptions request reply =
     \<lparr>outcome = CallbackThrew thrown, request_after = request, reply_after = reply\<rparr>"
  using extractApiKey_nonempty [of request "nullish (sources options) DEFAULT_SOURCES" k]
  by (simp add: createGuard_def Let_def)

lemma createGuard_unchanged:
  assumes "\<not> (\<exists>k result.
             extractApiKey request (nullish (sources options) DEFAULT_SOURCES) = Some k \<and>
             validate options k request = Inr result \<and>
             (\<forall>hook. onValidation options = Some hook \<longrightarrow> hook k result request = Inr ()) \<and>
             result_valid result \<and>
             valid (validateScopes (nullish (result_scopes result) [])
                      (guard_scopes guardOptions) (guard_anyScope guardOptions)))"
  shows "request_after (createGuard options guardOptions request reply) = request"
proof (cases "extractApiKey request (nullish (sources options) DEFAULT_SOURCES)")
  case None
  then show ?thesis
    by (simp add: createGuard_no_key raise_request)
next
  case (Some k)
  show ?thesis
  proof (cases "validate options k request")
    case (Inl thrown)
    then show ?thesis
      by (simp add: createGuard_validator_throws [OF Some])
  next
    case (Inr result)
    show ?thesis
    proof (cases "\<forall>hook. onValidation options = Some hook \<longrightarrow> hook k result request = Inr ()")
      case True
      then have "\<not> result_valid result \<or>
                 \<not> valid (validateScopes (nullish (result_scopes result) [])
                      (guard_scopes guardOptions) (guard_anyScope guardOptions))"
        using assms Some Inr by blast
      then show ?thesis
        unfolding createGuard_validated [OF Some Inr True]
        by (auto simp: raise_request checkScopesAndPopulate_fails)
    next
      case False
      then obtain hook thrown where "onValidation options = Some hook"
        and "hook k result request = Inl thrown"
        by (metis old.unit.exhaust sum.exhaust)
      then show ?thesis
        by (simp add: createGuard_hook_throws [OF Some Inr])
    qed
  qed
qed

text \<open>
  C2. For a guard of a plugin that registered, call a run successful when a key is
  extracted, the validator returns a result with \<open>valid: true\<close>, the \<open>onValidation\<close> hook
  if there is one returns, and the scope check passes. A successful run returns normally
  and leaves on the request, under the decorator name (\<open>apiKey\<close> by default), the context
  of the redacted key unless \<open>timingSafe\<close> is false, then the extracted key, with the scopes
  of the validator (none if it gave none), its \<open>rateLimit\<close> and its metadata (empty if it
  gave none), and under \<open>apiKeyScopes\<close> the same scopes; every other decoration is
  untouched. A run that is not successful, anonymous bypass or error, leaves the request
  as it was. So on a request that had no context, there is one after the run exactly when
  the run was successful.
\<close>

theorem authentication_context:
  assumes "fastifyApiKeyPlugin fastify options = Inr fastify'"
  shows "(\<forall>k result.
            extractApiKey request (nullish (sources options) DEFAULT_SOURCES) = Some k \<and>
            validate options k request = Inr result \<and>
            (\<forall>hook. onValidation options = Some hook \<longrightarrow> hook k result request = Inr ()) \<and>
            result_valid result \<and>
            valid (validateScopes (nullish (result_scopes result) [])
                     (guard_scopes guardOptions) (guard_anyScope guardOptions)) \<longrightarrow>
            outcome (createGuard options guardOptions request reply) = Continued \<and>
            decorations (request_after (createGuard options guardOptions request reply))
                (nullish (decoratorName options) (js ''apiKey'')) =
              Some (Context
                \<lparr>key = (if timingSafe options = Some False then k else js ''[REDACTED]''),
                 scopes = (case result_scopes result of Some granted \<Rightarrow> granted | None \<Rightarrow> []),
                 rateLimit = result_rateLimit result,
                 metadata = (case result_metadata result of Some m \<Rightarrow> m | None \<Rightarrow> Map.empty)\<rparr>) \<and>
            decorations (request_after (createGuard options guardOptions request reply))
                (js ''apiKeyScopes'') =
              Some (ScopeList (case result_scopes result of Some granted \<Rightarrow> granted | None \<Rightarrow> [])) \<and>
            (\<forall>n. n \<noteq> nullish (decoratorName options) (js ''apiKey'') \<and> n \<noteq> js ''apiKeyScopes'' \<longrightarrow>
               decorations (request_after (createGuard options guardOptions request reply)) n =
               decorations request n))
       \<and> (\<not> (\<exists>k result.
            extractApiKey request (nullish (sources options) DEFAULT_SOURCES) = Some k \<and>
            validate options k request = Inr result \<and>
            (\<forall>hook. onValidation options = Some hook \<longrightarrow> hook k result request = Inr ()) \<and>
            result_valid result \<and>
            valid (validateScopes (nullish (result_scopes result) [])
                     (guard_scopes guardOptions) (guard_anyScope guardOptions))) \<longrightarrow>
            request_after (createGuard options guardOptions request reply) = request)
       \<and> (decorations request (nullish (decoratorName options) (js ''apiKey'')) = None \<longrightarrow>
            (decorations (request_after (createGuard options guardOptions request reply))
                (nullish (decoratorName options) (js ''apiKey'')) \<noteq> None
             \<longleftrightarrow>
             (\<exists>k result.
                extractApiKey request (nullish (sources options) DEFAULT_SOURCES) = Some k \<and>
                validate options k request = Inr result \<and>
                (\<forall>hook. onValidation options = Some hook \<longrightarrow> hook k result request = Inr ()) \<and>
                result_valid result \<and>
                valid (validateScopes (nullish (result_scopes result) [])
                         (guard_scopes guardOptions) (guard_anyScope guardOptions)))))"
proof -
  let ?name = "nullish (decoratorName options) (js ''apiKey'')"
  let ?S = "\<lambda>k result.
            extractApiKey request (nullish (sources options) DEFAULT_SOURCES) = Some k \<and>
            validate options k request = Inr result \<and>
            (\<forall>hook. onValidation options = Some hook \<longrightarrow> hook k result request = Inr ()) \<and>
            result_valid result \<and>
            valid (validateScopes (nullish (result_scopes result) [])
                     (guard_scopes guardOptions) (guard_anyScope guardOptions))"
  have name: "?name \<noteq> js ''apiKeyScopes''"
    using assms by (rule registration_names)
  have ts: "nullish (timingSafe options) True \<longleftrightarrow> timingSafe options \<noteq> Some False"
    by (cases "timingSafe options") auto
  have success: "outcome (createGuard options guardOptions request reply) = Continued \<and>
            decorations (request_after (createGuard options guardOptions request reply)) ?name =
              Some (Context
                \<lparr>key = (if timingSafe options = Some False then k else js ''[REDACTED]''),
                 scopes = (case result_scopes result of Some granted \<Rightarrow> granted | None \<Rightarrow> []),
                 rateLimit = result_rateLimit result,
                 metadata = (case result_metadata result of Some m \<Rightarrow> m | None \<Rightarrow> Map.empty)\<rparr>) \<and>
            decorations (request_after (createGuard options guardOptions request reply))
                (js ''apiKeyScopes'') =
              Some (ScopeList (case result_scopes result of Some granted \<Rightarrow> granted | None \<Rightarrow> [])) \<and>
            (\<forall>n. n \<noteq> ?name \<and> n \<noteq> js ''apiKeyScopes'' \<longrightarrow>
               decorations (request_after (createGuard options guardOptions request reply)) n =
               decorations request n)"
    if "?S k result" for k result
  proof -
    have "createGuard options guardOptions request reply =
          checkScopesAndPopulate options guardOptions k result request reply"
      using that createGuard_validated [of request options k result guardOptions reply]
      by simp
    then show ?thesis
      using that name ts
      by (cases "result_scopes result"; cases "result_metadata result")
         (simp_all add: checkScopesAndPopulate_passes)
  qed
  have failure: "request_after (createGuard options guardOptions request reply) = request"
    if "\<not> (\<exists>k result. ?S k result)"
    using that by (rule createGuard_unchanged)
  have iff: "decorations (request_after (createGuard options guardOptions request reply)) ?name
               \<noteq> None \<longleftrightarrow> (\<exists>k result. ?S k result)"
    if "decorations request ?name = None"
  proof (cases "\<exists>k result. ?S k result")
    case True
    then show ?thesis using success by force
  next
    case False
    then show ?thesis using failure that by simp
  qed
  show ?thesis
    using success failure iff by blast
qed

theorem authentication_context_witness:
  "fastifyApiKeyPlugin example_fastify (test_options True (Some [js ''read'', js ''write''])) =
     Inr \<lparr>requestDecorators = [js ''apiKeyScopes'', js ''apiKey''],
          instanceDecorators = [js ''requireApiKey'', js ''apiKey'']\<rparr>
   \<and> decorations
       (request_after
          (createGuard (test_options True (Some [js ''read'', js ''write'']))
             \<lparr>guard_scopes = Some [js ''read''], guard_anyScope = None,
              guard_allowAnonymous = None\<rparr>
             keyed_request example_reply))
       (js ''apiKey'') =
     Some (Context \<lparr>key = js ''[REDACTED]'', scopes = [js ''read'', js ''write''],
                    rateLimit = None, metadata = Map.empty\<rparr>)
   \<and> decorations
       (request_after
          (createGuard (test_options True (Some [js ''read'', js ''write'']))
             \<lparr>guard_scopes = Some [js ''read''], guard_anyScope = None,
              guard_allowAnonymous = None\<rparr>
             keyed_request example_reply))
       (js ''apiKeyScopes'') =
     Some (ScopeList [js ''read'', js ''write''])
   \<and> request_after
       (createGuard (test_options True (Some [js ''read'', js ''write'']))
          \<lparr>guard_scopes = Some [js ''read''], guard_anyScope = None,
           guard_allowAnonymous = Some True\<rparr>
          anonymous_request example_reply) = anonymous_request"
proof -
  let ?options = "test_options True (Some [js ''read'', js ''write''])"
  let ?fastify' = "\<lparr>requestDecorators = [js ''apiKeyScopes'', js ''apiKey''],
                    instanceDecorators = [js ''requireApiKey'', js ''apiKey'']\<rparr>"
  let ?guard = "\<lparr>guard_scopes = Some [js ''read''], guard_anyScope = None,
                 guard_allowAnonymous = None\<rparr>"
  let ?open = "\<lparr>guard_scopes = Some [js ''read''], guard_anyScope = None,
                guard_allowAnonymous = Some True\<rparr>"
  let ?result = "test_result True (Some [js ''read'', js ''write''])"
  have reg: "fastifyApiKeyPlugin example_fastify ?options = Inr ?fastify'"
    by (simp add: fastifyApiKeyPlugin_def decorateRequest_def decorate_def example_fastify_def
        test_options_def js_def)
  have k: "extractApiKey keyed_request (nullish (sources ?options) DEFAULT_SOURCES) =
           Some (js ''sk_test_valid123'')"
    by (simp add: test_options_def keyed_request_key)
  have v: "validate ?options (js ''sk_test_valid123'') keyed_request = Inr ?result"
    by (simp add: test_options_def)
  have h: "\<forall>hook. onValidation ?options = Some hook \<longrightarrow>
             hook (js ''sk_test_valid123'') ?result keyed_request = Inr ()"
    by (simp add: test_options_def)
  have ok: "result_valid ?result"
    by (simp add: test_result_def)
  have pass: "valid (validateScopes (nullish (result_scopes ?result) [])
                (guard_scopes ?guard) (guard_anyScope ?guard))"
    by (simp add: test_result_def validateScopes_def hasAllScopes_def js_def)
  have none: "\<not> (\<exists>k result.
            extractApiKey anonymous_request (nullish (sources ?options) DEFAULT_SOURCES) = Some k \<and>
            validate ?options k anonymous_request = Inr result \<and>
            (\<forall>hook. onValidation ?options = Some hook \<longrightarrow>
               hook k result anonymous_request = Inr ()) \<and>
            result_valid result \<and>
            valid (validateScopes (nullish (result_scopes result) [])
                     (guard_scopes ?open) (guard_anyScope ?open)))"
    by (simp add: test_options_def anonymous_request_key)
  have "request_after (createGuard ?options ?open anonymous_request example_reply) =
        anonymous_request"
    using authentication_context [OF reg, of anonymous_request ?open example_reply] none
    by blast
  moreover have "decorations
       (request_after (createGuard ?options ?guard keyed_request example_reply))
       (nullish (decoratorName ?options) (js ''apiKey'')) =
     Some (Context
       \<lparr>key = (if timingSafe ?options = Some False then js ''sk_test_valid123''
               else js ''[REDACTED]''),
        scopes = (case result_scopes ?result of Some granted \<Rightarrow> granted | None \<Rightarrow> []),
        rateLimit = result_rateLimit ?result,
        metadata = (case result_metadata ?result of Some m \<Rightarrow> m | None \<Rightarrow> Map.empty)\<rparr>)
     \<and> decorations
       (request_after (createGuard ?options ?guard keyed_request example_reply))
       (js ''apiKeyScopes'') =
     Some (ScopeList (case result_scopes ?result of Some granted \<Rightarrow> granted | None \<Rightarrow> []))"
    using authentication_context [OF reg, of keyed_request ?guard example_reply] k v h ok pass
    by blast
  ultimately show ?thesis
    using reg by (simp add: test_options_def test_result_def)
qed

section \<open>Properties of the comparison\<close>

lemma timingSafeCompare_bytes:
  "timingSafeCompare (JString a) (JString b) = Inr (Buffer_from a = Buffer_from b)"
  by (auto simp: timingSafeCompare_def timingSafeEqual_def Let_def)

lemma timingSafeCompare_same: "timingSafeCompare (JString a) (JString a) = Inr True"
  by (simp add: timingSafeCompare_bytes)

lemma timingSafeCompare_non_string:
  "(\<forall>s. a \<noteq> JString s) \<or> (\<forall>s. b \<noteq> JString s) \<Longrightarrow> timingSafeCompare a b = Inr False"
  by (cases a; cases b) (auto simp: timingSafeCompare_def)

lemma timingSafeCompare_examples:
  "timingSafeCompare (JString (js ''short'')) (JString (js ''longstring'')) = Inr False"
  "timingSafeCompare (JString (js ''test'')) (JString (js ''test2'')) = Inr False"
  "timingSafeCompare (JString (js ''api_key_123'')) (JString (js ''api_key_456'')) = Inr False"
  "timingSafeCompare (JNumber 123) (JNumber 123) = Inr False"
  "timingSafeCompare JNull (JString (js ''test'')) = Inr False"
  "timingSafeCompare (JString (js ''test'')) JUndefined = Inr False"
  by (simp_all add: timingSafeCompare_bytes timingSafeCompare_non_string js_def utf8_def
      isHighSurrogate_def isLowSurrogate_def)

text \<open>
  On strings without surrogate code units the encoding is injective, so the comparison
  is string equality there.
\<close>

lemma utf8_not_Nil: "utf8 n \<noteq> []"
  by (simp add: utf8_def)

lemma unat_byte: "x < 256 \<Longrightarrow> unat (of_nat x :: 8 word) = x"
  by (simp add: unat_of_nat)

lemma unat_utf8:
  assumes "k < 0x10000"
  shows "map unat (utf8 k) =
     (if k < 0x80 then [k]
      else if k < 0x800 then [0xC0 + k div 64, 0x80 + k mod 64]
      else [0xE0 + k div 4096, 0x80 + (k div 64) mod 64, 0x80 + k mod 64])"
proof -
  have "0x80 + k mod 64 < 256" "0x80 + (k div 64) mod 64 < 256"
    by simp_all
  moreover have "0xC0 + k div 64 < 256" if "k < 0x800"
    using that by simp
  moreover have "0xE0 + k div 4096 < 256"
    using assms by simp
  ultimately show ?thesis
    using assms unfolding utf8_def by (simp add: unat_byte del: of_nat_add of_nat_numeral)
qed


lemma utf8_prefix_free:
  assumes "m < 0x10000" and "n < 0x10000" and "utf8 m @ xs = utf8 n @ ys"
  shows "m = n"
proof -
  let ?u = "\<lambda>k::nat. if k < 0x80 then [k]
      else if k < 0x800 then [0xC0 + k div 64, 0x80 + k mod 64]
      else [0xE0 + k div 4096, 0x80 + (k div 64) mod 64, 0x80 + k mod 64]"
  have "map unat (utf8 m) @ map unat xs = map unat (utf8 n) @ map unat ys"
    using assms(3) by (metis map_append)
  then have eq: "?u m @ map unat xs = ?u n @ map unat ys"
    by (simp only: unat_utf8 [OF assms(1)] unat_utf8 [OF assms(2)])
  have small: "k div 64 < 32" if "k < 0x800" for k :: nat
    using that by simp
  have two: "j = k" if "j div 64 = k div 64" "j mod 64 = k mod 64" for j k :: nat
    using that by (metis div_mult_mod_eq)
  have three: "j = k"
    if "j div 4096 = k div 4096" "(j div 64) mod 64 = (k div 64) mod 64" "j mod 64 = k mod 64"
    for j k :: nat
  proof -
    have "(j div 64) div 64 = (k div 64) div 64"
      using that(1) div_mult2_eq [of j 64 64] div_mult2_eq [of k 64 64] by simp
    then have "j div 64 = k div 64"
      using that(2) by (rule two)
    then show ?thesis
      using that(3) by (rule two)
  qed
  consider (a) "m < 0x80" | (b) "0x80 \<le> m" "m < 0x800" | (c) "0x800 \<le> m"
    by linarith
  then show ?thesis
  proof cases
    case a
    consider "n < 0x80" | "0x80 \<le> n" "n < 0x800" | "0x800 \<le> n" by linarith
    then show ?thesis
      using a eq by cases simp_all
  next
    case b
    consider "n < 0x80" | "0x80 \<le> n" "n < 0x800" | "0x800 \<le> n" by linarith
    then show ?thesis
    proof cases
      case 1
      then show ?thesis using b eq by simp
    next
      case 2
      then show ?thesis using b eq two [of m n] by simp
    next
      case 3
      then show ?thesis using b eq small [of m] by simp
    qed
  next
    case c
    consider "n < 0x80" | "0x80 \<le> n" "n < 0x800" | "0x800 \<le> n" by linarith
    then show ?thesis
    proof cases
      case 1
      then show ?thesis using c eq by simp
    next
      case 2
      then show ?thesis using c eq small [of n] by simp
    next
      case 3
      then show ?thesis using c eq three [of m n] by simp
    qed
  qed
qed


lemma Buffer_from_plain:
  "\<not> isHighSurrogate c \<Longrightarrow> \<not> isLowSurrogate c \<Longrightarrow>
   Buffer_from (c # cs) = utf8 (unat c) @ Buffer_from cs"
  by (cases cs) simp_all

lemma Buffer_from_plain_inj:
  assumes "\<forall>c\<in>set a. \<not> isHighSurrogate c \<and> \<not> isLowSurrogate c"
      and "\<forall>c\<in>set b. \<not> isHighSurrogate c \<and> \<not> isLowSurrogate c"
      and "Buffer_from a = Buffer_from b"
  shows "a = b"
  using assms
proof (induction a arbitrary: b)
  case Nil
  then show ?case
    by (cases b) (simp_all add: Buffer_from_plain utf8_not_Nil)
next
  case (Cons c a)
  show ?case
  proof (cases b)
    case Nil
    then show ?thesis
      using Cons.prems by (simp add: Buffer_from_plain utf8_not_Nil)
  next
    case (Cons d b')
    have eq: "utf8 (unat c) @ Buffer_from a = utf8 (unat d) @ Buffer_from b'"
      using Cons.prems Cons by (simp add: Buffer_from_plain)
    have "unat c < 0x10000" "unat d < 0x10000"
      using unsigned_less [of c] unsigned_less [of d] by simp_all
    then have "unat c = unat d"
      using eq by (rule utf8_prefix_free)
    then have "c = d"
      by (simp add: word_unat_eq_iff)
    moreover from this eq have "Buffer_from a = Buffer_from b'"
      by simp
    then have "a = b'"
      using Cons.IH [of b'] Cons.prems Cons by simp
    ultimately show ?thesis
      using Cons by simp
  qed
qed

lemma timingSafeCompare_plain:
  assumes "\<forall>c\<in>set a. \<not> isHighSurrogate c \<and> \<not> isLowSurrogate c"
      and "\<forall>c\<in>set b. \<not> isHighSurrogate c \<and> \<not> isLowSurrogate c"
  shows "timingSafeCompare (JString a) (JString b) = Inr (a = b)"
  using Buffer_from_plain_inj [OF assms] by (auto simp: timingSafeCompare_bytes)

text \<open>
  C9 does not hold of \<open>timingSafeCompare\<close> on every pair of strings: the comparison is of
  the UTF-8 encodings, and two different strings of one unpaired surrogate each have the
  same encoding, that of U+FFFD.
\<close>

theorem timingSafeCompare_unpaired_surrogates:
  "timingSafeCompare (JString [0xD800]) (JString [0xD801]) = Inr True
   \<and> Buffer_from [0xD800] = [0xEF, 0xBF, 0xBD]
   \<and> Buffer_from [0xD801] = [0xEF, 0xBF, 0xBD]
   \<and> [0xD800 :: 16 word] \<noteq> [0xD801]"
  by (simp add: timingSafeCompare_bytes utf8_def isHighSurrogate_def isLowSurrogate_def)

end
